theory Spec2Isabelle
  imports Complex_Main
begin

section \<open>Trainable ISTA (tista.py): data model\<close>

text \<open>
  The program works on single-precision tensors. In this development a tensor entry is a
  real number and the arithmetic is exact, except in the section on special float values
  below, where NaN and the infinities are tracked. A vector is a list, a matrix is the
  list of its rows: a batch of signals is a matrix with one row per batch item.
\<close>

type_synonym vec = "real list"
type_synonym tensor = "real list list"

text \<open>
  The module-level variables of tista.py. \<open>At\<close>, \<open>Wt\<close>, \<open>taa\<close> and \<open>tww\<close> are
  computed once from the random sensing matrix; \<open>sigma2\<close>, \<open>sigma_std\<close> and \<open>xi\<close> are
  the globals that \<open>main\<close> assigns during the SNR calculation.
\<close>

record globals =
  N :: nat
  M :: nat
  p :: real
  batch_size :: nat
  num_batch :: nat
  num_generations :: nat
  snr :: real
  alpha2 :: real
  max_layers :: nat
  At :: tensor
  Wt :: tensor
  taa :: real
  tww :: real
  sigma2 :: real
  sigma_std :: real
  xi :: real

text \<open>
  The errors the program can raise: indexing \<open>gamma\<close> outside its range, and a
  division of Python floats by zero (torch's own divisions never raise).
\<close>

datatype error = IndexOutOfRange | ZeroDivisionError

text \<open>
  \<^verbatim>\<open>class TISTA_NET(nn.Module)\<close>: the only attribute is the parameter vector
  \<open>gamma\<close>, which \<open>__init__\<close> draws with \<open>max_layers\<close> entries.
\<close>

record TISTA_NET =
  gamma :: vec

definition TISTA_NET_init :: "globals \<Rightarrow> (nat \<Rightarrow> real) \<Rightarrow> TISTA_NET" where
  \<comment> \<open>\<open>draw k\<close> is coordinate \<open>k\<close> of the outcome of
    \<open>torch.normal(1.0, 0.1*torch.ones(max_layers))\<close>\<close>
  "TISTA_NET_init g draw = \<lparr>gamma = map draw [0..<max_layers g]\<rparr>"

section \<open>Tensor operations\<close>

text \<open>
  Every tensor of the program has its shape fixed by the globals (a batch is
  \<open>batch_size \<times> N\<close>, a measurement batch \<open>batch_size \<times> M\<close>), so torch's shape
  checks never fail and are not part of the model: the operations below are the torch
  operations on tensors of matching shapes.
\<close>

definition dot :: "vec \<Rightarrow> vec \<Rightarrow> real" where
  "dot u v = sum_list (map2 (*) u v)"

definition mm :: "tensor \<Rightarrow> tensor \<Rightarrow> tensor" where
  \<comment> \<open>\<open>a.mm(b)\<close>: every row of \<open>a\<close> against every column of \<open>b\<close>\<close>
  "mm a b = map (\<lambda>row. map (dot row) (transpose b)) a"

definition tadd :: "tensor \<Rightarrow> tensor \<Rightarrow> tensor" where
  "tadd a b = map2 (map2 (+)) a b"

definition tsub :: "tensor \<Rightarrow> tensor \<Rightarrow> tensor" where
  "tsub a b = map2 (map2 (-)) a b"

definition tscale :: "tensor \<Rightarrow> real \<Rightarrow> tensor" where
  \<comment> \<open>a tensor times the one-element tensor \<open>gamma[i]\<close>\<close>
  "tscale a c = map (map (\<lambda>v. v * c)) a"

definition norm_2_1 :: "tensor \<Rightarrow> vec" where
  \<comment> \<open>\<open>t.norm(2, 1)\<close>: the 2-norm of every row\<close>
  "norm_2_1 t = map (\<lambda>row. sqrt (sum_list (map (\<lambda>v. v * v) row))) t"

definition clamp_min :: "vec \<Rightarrow> real \<Rightarrow> vec" where
  \<comment> \<open>\<open>v.clamp(min=c)\<close>: a new tensor; the receiver is not changed\<close>
  "clamp_min v c = map (max c) v"

definition expand_t :: "nat \<Rightarrow> vec \<Rightarrow> tensor" where
  \<comment> \<open>\<open>(v.expand(n, batch_size)).t()\<close> for a vector \<open>v\<close> of \<open>batch_size\<close> entries\<close>
  "expand_t n v = transpose (replicate n v)"

definition getitem :: "vec \<Rightarrow> nat \<Rightarrow> error + real" where
  \<comment> \<open>\<open>v[i]\<close> for an index from \<open>range\<close>, which is never negative\<close>
  "getitem v i = (if i < length v then Inr (v ! i) else Inl IndexOutOfRange)"

section \<open>Shrinkage estimator\<close>

text \<open>
  torch applies \<open>exp\<close>, \<open>mul\<close>, \<open>*\<close>, \<open>/\<close> and \<open>+\<close> coordinate by coordinate, so
  \<open>gauss\<close> and \<open>MMSE_shrinkage\<close> are given for one coordinate and lifted to tensors
  of equal shape by \<open>MMSE_shrinkage_tensor\<close>.

  \<^verbatim>\<open>def gauss(self, x, var): return torch.exp(-torch.mul(x, x)/(2.0*var))\<close>
\<close>

definition gauss :: "real \<Rightarrow> real \<Rightarrow> real" where
  "gauss x var = exp (- (x * x) / (2 * var))"

text \<open>
  \<^verbatim>\<open>return (y*alpha2/xi)*p*self.gauss(y, xi)/((1-p)*self.gauss(y, tau2) + p*self.gauss(y, xi))\<close>
\<close>

definition MMSE_shrinkage :: "globals \<Rightarrow> real \<Rightarrow> real \<Rightarrow> real" where
  "MMSE_shrinkage g y tau2 =
     (y * alpha2 g / xi g) * p g * gauss y (xi g)
       / ((1 - p g) * gauss y tau2 + p g * gauss y (xi g))"

definition MMSE_shrinkage_tensor :: "globals \<Rightarrow> tensor \<Rightarrow> tensor \<Rightarrow> tensor" where
  "MMSE_shrinkage_tensor g y tau2 = map2 (map2 (MMSE_shrinkage g)) y tau2"

section \<open>Error variance estimator and network\<close>

text \<open>
  \<^verbatim>\<open>
  def eval_tau2(self, t, i):
      v2 = (t.norm(2,1).pow(2.0) - M*sigma2)/taa
      v2.clamp(min=1e-7)
      tau2 = (v2/N)*(N+(self.gamma[i]*self.gamma[i]-2.0*self.gamma[i])*M)+self.gamma[i]*self.gamma[i]*tww*sigma2/N
      tau2 = (tau2.expand(N, batch_size)).t()
      return tau2
  \<close>
  The second line builds the clamped tensor and drops it: \<open>clamp\<close> returns its result
  and leaves \<open>v2\<close> as it was (the in-place operation is \<open>clamp_\<close>).
\<close>

definition eval_tau2 :: "globals \<Rightarrow> TISTA_NET \<Rightarrow> tensor \<Rightarrow> nat \<Rightarrow> error + tensor" where
  "eval_tau2 g self t i =
     (let v2 = map (\<lambda>n. (n\<^sup>2 - real (M g) * sigma2 g) / taa g) (norm_2_1 t);
          dropped = clamp_min v2 (1 / 10 ^ 7)
      in case getitem (gamma self) i of
           Inl e \<Rightarrow> Inl e
         | Inr gi \<Rightarrow>
             let tau2 = map (\<lambda>v. (v / real (N g)) * (real (N g) + (gi * gi - 2 * gi) * real (M g))
                                   + gi * gi * tww g * sigma2 g / real (N g)) v2
             in Inr (expand_t (N g) tau2))"

text \<open>
  \<^verbatim>\<open>
  def forward(self, x, s, max_itr):
      y = x.mm(At) + Variable(torch.normal(0.0, sigma_std*torch.ones(batch_size, M))).cuda()
      for i in range(max_itr):
          t = y - s.mm(At)
          tau2 = self.eval_tau2(t, i)
          r = s + t.mm(Wt)*self.gamma[i]
          s = self.MMSE_shrinkage(r, tau2)
      return s
  \<close>
  The noise tensor drawn in the first line is an argument of the model. \<open>layer\<close> is the
  body of the loop, \<open>forward_loop\<close> the loop over \<open>range(max_itr)\<close>.
\<close>

definition layer :: "globals \<Rightarrow> TISTA_NET \<Rightarrow> tensor \<Rightarrow> nat \<Rightarrow> tensor \<Rightarrow> error + tensor" where
  "layer g self y i s =
     (let t = tsub y (mm s (At g))
      in case eval_tau2 g self t i of
           Inl e \<Rightarrow> Inl e
         | Inr tau2 \<Rightarrow>
             (case getitem (gamma self) i of
                Inl e \<Rightarrow> Inl e
              | Inr gi \<Rightarrow>
                  let r = tadd s (tscale (mm t (Wt g)) gi)
                  in Inr (MMSE_shrinkage_tensor g r tau2)))"

fun forward_loop :: "globals \<Rightarrow> TISTA_NET \<Rightarrow> tensor \<Rightarrow> nat list \<Rightarrow> tensor \<Rightarrow> error + tensor" where
  "forward_loop g self y [] s = Inr s"
| "forward_loop g self y (i # is) s =
     (case layer g self y i s of
        Inl e \<Rightarrow> Inl e
      | Inr s' \<Rightarrow> forward_loop g self y is s')"

definition forward :: "globals \<Rightarrow> TISTA_NET \<Rightarrow> tensor \<Rightarrow> tensor \<Rightarrow> tensor \<Rightarrow> nat \<Rightarrow> error + tensor" where
  "forward g self noise x s max_itr =
     (let y = tadd (mm x (At g)) noise
      in forward_loop g self y [0..<max_itr] s)"

text \<open>
  A small configuration for concrete evaluation: the sensing matrix is the single row
  \<open>(1, 1, 1)\<close>, so \<open>N = 3\<close>, \<open>M = 1\<close>, the pseudo inverse is the column
  \<open>(1/3, 1/3, 1/3)\<close>, \<open>trace(A\<^sup>T A) = 3\<close> and \<open>trace(W W\<^sup>T) = 1/3\<close>.
\<close>

definition small_globals :: globals where
  "small_globals =
     \<lparr>N = 3, M = 1, p = 1 / 10, batch_size = 1, num_batch = 2, num_generations = 2,
      snr = 40, alpha2 = 1, max_layers = 2,
      At = [[1], [1], [1]], Wt = [[1 / 3, 1 / 3, 1 / 3]], taa = 3, tww = 1 / 3,
      sigma2 = 1, sigma_std = 1, xi = 2\<rparr>"

section \<open>SNR calculation\<close>

text \<open>
  \<^verbatim>\<open>
  sum = 0.0
  for i in range(100):
      x = Variable(generate_batch()).cuda()
      y = x.mm(At)
      sum += (y.norm(2, 1).pow(2.0)).sum().data[0]
  ave = sum/(100.0 * batch_size)
  sigma2 = ave/(M*math.pow(10.0, snr/10.0))
  sigma_std = math.sqrt(sigma2)
  xi = alpha2 + sigma2
  \<close>
  The variable \<open>sum\<close> is \<open>sum_acc\<close> here. The batches that \<open>generate_batch\<close>
  returns are arguments of the model: \<open>batch i\<close> is
  the one drawn in iteration \<open>i\<close>. \<open>sum\<close>, \<open>ave\<close> and \<open>sigma2\<close> are Python floats,
  whose division raises on a zero divisor.
\<close>

fun snr_loop :: "globals \<Rightarrow> tensor list \<Rightarrow> real \<Rightarrow> real" where
  "snr_loop g [] sum_acc = sum_acc"
| "snr_loop g (x # xs) sum_acc =
     (let y = mm x (At g)
      in snr_loop g xs (sum_acc + sum_list (map (\<lambda>n. n\<^sup>2) (norm_2_1 y))))"

definition SNR_calculation :: "globals \<Rightarrow> (nat \<Rightarrow> tensor) \<Rightarrow> error + globals" where
  "SNR_calculation g batch =
     (let sum_acc = snr_loop g (map batch [0..<100]) 0
      in if 100 * real (batch_size g) = 0 then Inl ZeroDivisionError
         else let ave = sum_acc / (100 * real (batch_size g))
              in if real (M g) * 10 powr (snr g / 10) = 0 then Inl ZeroDivisionError
                 else let s2 = ave / (real (M g) * 10 powr (snr g / 10))
                      in Inr (g\<lparr>sigma2 := s2, sigma_std := sqrt s2, xi := alpha2 g + s2\<rparr>))"

text \<open>
  The calibration as the specification words it: the noise variance is the average,
  over all batch items drawn, of the total squared energy of the noiseless measurement
  of the item, divided by \<open>M * 10^(SNR/10)\<close>.
\<close>

definition measurement_energy :: "globals \<Rightarrow> vec \<Rightarrow> real" where
  "measurement_energy g x = (\<Sum>column \<leftarrow> transpose (At g). (dot x column)\<^sup>2)"

definition average_energy :: "globals \<Rightarrow> vec list \<Rightarrow> real" where
  "average_energy g items = (\<Sum>x \<leftarrow> items. measurement_energy g x) / real (length items)"

definition spec_sigma2 :: "globals \<Rightarrow> vec list \<Rightarrow> real" where
  "spec_sigma2 g items = average_energy g items / (real (M g) * 10 powr (snr g / 10))"

section \<open>Special float values\<close>

text \<open>
  Where the program depends on NaN, a tensor entry is a float value: a finite number,
  an infinity or NaN. The operations follow IEEE 754 on the special values. Finite
  results are exact (rounding and overflow of the four arithmetic operations are not
  modelled) and the sign of zero is not tracked (a zero divisor counts as \<open>+0\<close>).
  The exponential function underflows to zero and overflows to infinity, as the
  single-precision \<open>torch.exp\<close> does for every argument below \<open>-104\<close> and above \<open>89\<close>.
\<close>

datatype fval = Fin real | PInf | NInf | NaN

fun fneg :: "fval \<Rightarrow> fval" where
  "fneg (Fin a) = Fin (- a)"
| "fneg PInf = NInf"
| "fneg NInf = PInf"
| "fneg NaN = NaN"

fun fadd :: "fval \<Rightarrow> fval \<Rightarrow> fval" where
  "fadd NaN b = NaN"
| "fadd a NaN = NaN"
| "fadd (Fin a) (Fin b) = Fin (a + b)"
| "fadd PInf NInf = NaN"
| "fadd NInf PInf = NaN"
| "fadd PInf b = PInf"
| "fadd a PInf = PInf"
| "fadd NInf b = NInf"
| "fadd a NInf = NInf"

fun fmul :: "fval \<Rightarrow> fval \<Rightarrow> fval" where
  "fmul NaN b = NaN"
| "fmul a NaN = NaN"
| "fmul (Fin a) (Fin b) = Fin (a * b)"
| "fmul (Fin a) PInf = (if a = 0 then NaN else if 0 < a then PInf else NInf)"
| "fmul (Fin a) NInf = (if a = 0 then NaN else if 0 < a then NInf else PInf)"
| "fmul PInf (Fin b) = (if b = 0 then NaN else if 0 < b then PInf else NInf)"
| "fmul NInf (Fin b) = (if b = 0 then NaN else if 0 < b then NInf else PInf)"
| "fmul PInf PInf = PInf"
| "fmul PInf NInf = NInf"
| "fmul NInf PInf = NInf"
| "fmul NInf NInf = PInf"

fun fdiv :: "fval \<Rightarrow> fval \<Rightarrow> fval" where
  "fdiv NaN b = NaN"
| "fdiv a NaN = NaN"
| "fdiv (Fin a) (Fin b) =
     (if b \<noteq> 0 then Fin (a / b) else if a = 0 then NaN else if 0 < a then PInf else NInf)"
| "fdiv (Fin a) PInf = Fin 0"
| "fdiv (Fin a) NInf = Fin 0"
| "fdiv PInf (Fin b) = (if 0 \<le> b then PInf else NInf)"
| "fdiv NInf (Fin b) = (if 0 \<le> b then NInf else PInf)"
| "fdiv PInf PInf = NaN"
| "fdiv PInf NInf = NaN"
| "fdiv NInf PInf = NaN"
| "fdiv NInf NInf = NaN"

fun fexp :: "fval \<Rightarrow> fval" where
  "fexp (Fin a) = (if a < - 104 then Fin 0 else if 89 < a then PInf else Fin (exp a))"
| "fexp PInf = PInf"
| "fexp NInf = Fin 0"
| "fexp NaN = NaN"

fun fne :: "fval \<Rightarrow> fval \<Rightarrow> bool" where
  \<comment> \<open>the comparison \<open>a != b\<close> of floats: true whenever an operand is NaN\<close>
  "fne NaN b = True"
| "fne a NaN = True"
| "fne a b = (a \<noteq> b)"

text \<open>
  \<open>gauss\<close> and \<open>MMSE_shrinkage\<close> once more, operator by operator, on float values:
  \<open>y\<close> and \<open>tau2\<close> are tensor entries, \<open>alpha2\<close>, \<open>xi\<close> and \<open>p\<close> are Python floats.
\<close>

definition gauss_float :: "fval \<Rightarrow> fval \<Rightarrow> fval" where
  "gauss_float x var = fexp (fdiv (fneg (fmul x x)) (fmul (Fin 2) var))"

definition MMSE_shrinkage_float :: "globals \<Rightarrow> fval \<Rightarrow> fval \<Rightarrow> fval" where
  "MMSE_shrinkage_float g y tau2 =
     fdiv (fmul (fmul (fdiv (fmul y (Fin (alpha2 g))) (Fin (xi g))) (Fin (p g)))
                (gauss_float y (Fin (xi g))))
          (fadd (fmul (Fin (1 - p g)) (gauss_float y tau2))
                (fmul (Fin (p g)) (gauss_float y (Fin (xi g)))))"

text \<open>
  \<^verbatim>\<open>def isnan(x): return x != x\<close>, coordinate by coordinate, and \<open>.any()\<close>.
\<close>

definition isnan :: "fval list list \<Rightarrow> bool list list" where
  "isnan x = map (map (\<lambda>v. fne v v)) x"

definition tensor_any :: "bool list list \<Rightarrow> bool" where
  "tensor_any b = list_ex (list_ex (\<lambda>v. v)) b"

section \<open>Training driver\<close>

text \<open>
  What \<open>main\<close> takes from torch and from the random number generator: the gradient
  that \<open>loss.backward()\<close> leaves in \<open>gamma.grad\<close> (after \<open>opt.zero_grad()\<close> cleared it)
  for the loss of \<open>network(x, s_zero, max_itr)\<close> with the noise drawn in that call,
  the update of \<open>optim.Adam\<close> (from its state, \<open>gamma\<close> and the gradient to its new
  state and the new \<open>gamma\<close>), and the batches and noise tensors drawn.
\<close>

record 'o substrate =
  backward :: "TISTA_NET \<Rightarrow> tensor \<Rightarrow> tensor \<Rightarrow> nat \<Rightarrow> fval list"
  opt_step :: "'o \<Rightarrow> vec \<Rightarrow> fval list \<Rightarrow> 'o \<times> vec"
  train_batch :: "nat \<Rightarrow> nat \<Rightarrow> tensor"
  train_noise :: "nat \<Rightarrow> nat \<Rightarrow> tensor"
  test_batch :: "nat \<Rightarrow> nat \<Rightarrow> tensor"
  test_noise :: "nat \<Rightarrow> nat \<Rightarrow> tensor"

text \<open>
  The state that the loops of \<open>main\<close> update: the network, the optimizer, the lines
  printed, and a log of the calls \<open>network(x, s_zero, max_itr)\<close> made so far (phase,
  generation and \<open>max_itr\<close> of each).
\<close>

datatype phase = Training | Evaluation

record 'o driver =
  network :: TISTA_NET
  opt :: 'o
  printed :: "(nat \<times> real) list"
  calls :: "(phase \<times> nat \<times> nat) list"

definition s_zero :: "globals \<Rightarrow> tensor" where
  \<comment> \<open>\<open>torch.zeros(batch_size, N)\<close>\<close>
  "s_zero g = replicate (batch_size g) (replicate (N g) 0)"

definition step :: "'o substrate \<Rightarrow> 'o driver \<Rightarrow> fval list \<Rightarrow> 'o driver" where
  \<comment> \<open>\<open>opt.step()\<close>\<close>
  "step env st grad =
     (let (o', gamma') = opt_step env (opt st) (gamma (network st)) grad
      in st\<lparr>network := \<lparr>gamma = gamma'\<rparr>, opt := o'\<rparr>)"

text \<open>
  The body of the inner loop:
  \<^verbatim>\<open>
  x = Variable(generate_batch()).cuda()
  opt.zero_grad()
  x_hat = network(x, s_zero, gen+1).cuda()
  loss = F.mse_loss(x_hat, x)
  loss.backward()
  grads = torch.stack([param.grad for param in network.parameters()])
  if isnan(grads).any():  # avoiding NaN in gradients
      continue
  opt.step()
  \<close>
\<close>

definition minibatch :: "'o substrate \<Rightarrow> globals \<Rightarrow> nat \<Rightarrow> nat \<Rightarrow> 'o driver \<Rightarrow> error + 'o driver" where
  "minibatch env g gen i st =
     (let x = train_batch env gen i;
          noise = train_noise env gen i
      in case forward g (network st) noise x (s_zero g) (gen + 1) of
           Inl e \<Rightarrow> Inl e
         | Inr x_hat \<Rightarrow>
             let st1 = st\<lparr>calls := calls st @ [(Training, gen, gen + 1)]\<rparr>;
                 grads = [backward env (network st) x noise (gen + 1)]
             in if tensor_any (isnan grads) then Inr st1
                else Inr (step env st1 (backward env (network st) x noise (gen + 1))))"

fun train_loop :: "'o substrate \<Rightarrow> globals \<Rightarrow> nat \<Rightarrow> nat list \<Rightarrow> 'o driver \<Rightarrow> error + 'o driver" where
  "train_loop env g gen [] st = Inr st"
| "train_loop env g gen (i # is) st =
     (case minibatch env g gen i st of
        Inl e \<Rightarrow> Inl e
      | Inr st' \<Rightarrow> train_loop env g gen is st')"

text \<open>
  The accuracy check:
  \<^verbatim>\<open>
  nmse_sum = 0.0
  for i in range(10):
      x = Variable(generate_batch()).cuda()
      x_hat = network(x, s_zero, gen+1).cuda()
      num = (x - x_hat).norm(2, 1).pow(2.0)
      denom = x.norm(2,1).pow(2.0)
      nmse = 10.0*torch.log(num/denom)/math.log(10.0)
      nmse_sum += torch.sum(nmse).data[0]
  print('({0}) NMSE= {1:6.3f}'.format(gen + 1, nmse_sum / (10.0 * batch_size)))
  \<close>
\<close>

fun accuracy_loop ::
  "'o substrate \<Rightarrow> globals \<Rightarrow> nat \<Rightarrow> nat list \<Rightarrow> real \<Rightarrow> 'o driver \<Rightarrow> error + real \<times> 'o driver" where
  "accuracy_loop env g gen [] nmse_sum st = Inr (nmse_sum, st)"
| "accuracy_loop env g gen (i # is) nmse_sum st =
     (let x = test_batch env gen i
      in case forward g (network st) (test_noise env gen i) x (s_zero g) (gen + 1) of
           Inl e \<Rightarrow> Inl e
         | Inr x_hat \<Rightarrow>
             let num = map (\<lambda>n. n\<^sup>2) (norm_2_1 (tsub x x_hat));
                 denom = map (\<lambda>n. n\<^sup>2) (norm_2_1 x);
                 nmse = map2 (\<lambda>a b. 10 * ln (a / b) / ln 10) num denom
             in accuracy_loop env g gen is (nmse_sum + sum_list nmse)
                  (st\<lparr>calls := calls st @ [(Evaluation, gen, gen + 1)]\<rparr>))"

text \<open>
  The incremental training loop, \<^verbatim>\<open>for gen in range(num_generations)\<close>, and \<open>main\<close>.
\<close>

fun generations :: "'o substrate \<Rightarrow> globals \<Rightarrow> nat list \<Rightarrow> 'o driver \<Rightarrow> error + 'o driver" where
  "generations env g [] st = Inr st"
| "generations env g (gen # gens) st =
     (case train_loop env g gen [0..<num_batch g] st of
        Inl e \<Rightarrow> Inl e
      | Inr st1 \<Rightarrow>
          (case accuracy_loop env g gen [0..<10] 0 st1 of
             Inl e \<Rightarrow> Inl e
           | Inr (nmse_sum, st2) \<Rightarrow>
               if 10 * real (batch_size g) = 0 then Inl ZeroDivisionError
               else generations env g gens
                      (st2\<lparr>printed := printed st2 @ [(gen + 1, nmse_sum / (10 * real (batch_size g)))]\<rparr>)))"

definition main ::
  "'o substrate \<Rightarrow> globals \<Rightarrow> (nat \<Rightarrow> real) \<Rightarrow> 'o \<Rightarrow> (nat \<Rightarrow> tensor) \<Rightarrow> error + 'o driver" where
  "main env g gamma_draw adam batch =
     (let st = \<lparr>network = TISTA_NET_init g gamma_draw, opt = adam, printed = [], calls = []\<rparr>
      in case SNR_calculation g batch of
           Inl e \<Rightarrow> Inl e
         | Inr g' \<Rightarrow> generations env g' [0..<num_generations g'] st)"

text \<open>
  The log that the incremental training loop leaves when no call fails: in every
  generation \<open>num_batch\<close> training calls and then ten evaluation calls, all with
  \<open>max_itr = gen + 1\<close>.
\<close>

definition expected_calls :: "globals \<Rightarrow> nat list \<Rightarrow> (phase \<times> nat \<times> nat) list" where
  "expected_calls g gens =
     concat (map (\<lambda>gen. replicate (num_batch g) (Training, gen, gen + 1)
                          @ replicate 10 (Evaluation, gen, gen + 1)) gens)"

text \<open>
  A small substrate and driver state for concrete evaluation: the gradient is NaN in its
  first coordinate for the zero batch and finite otherwise, the optimizer counts its
  steps and shrinks every entry of \<open>gamma\<close>.
\<close>

definition small_substrate :: "nat substrate" where
  "small_substrate =
     \<lparr>backward = (\<lambda>self x noise max_itr. if x = [[0, 0, 0]] then [NaN, Fin 0] else [Fin 1, Fin 0]),
      opt_step = (\<lambda>count v grad. (Suc count, map (\<lambda>w. w * (24 / 25)) v)),
      train_batch = (\<lambda>gen i. [[real i, 0, 0]]),
      train_noise = (\<lambda>gen i. [[0]]),
      test_batch = (\<lambda>gen i. [[1, 0, 0]]),
      test_noise = (\<lambda>gen i. [[0]])\<rparr>"

definition small_driver :: "nat driver" where
  "small_driver = \<lparr>network = \<lparr>gamma = [1, 1]\<rparr>, opt = 0, printed = [], calls = []\<rparr>"

section \<open>Properties of the shrinkage estimator\<close>

lemma gauss_pos: "0 < gauss x var"
  by (simp add: gauss_def)

lemma gauss_minus: "gauss (- x) var = gauss x var"
  by (simp add: gauss_def)

lemma gauss_zero: "gauss 0 var = 1"
  by (simp add: gauss_def)

lemma mixture_pos:
  assumes "0 < q" and "q < 1"
  shows "0 < (1 - q) * gauss x v + q * gauss x w"
proof -
  have "0 < (1 - q) * gauss x v"
    using assms gauss_pos [of x v] by simp
  moreover have "0 < q * gauss x w"
    using assms gauss_pos [of x w] by simp
  ultimately show ?thesis
    by (rule add_pos_pos)
qed

text \<open>
  C7. For every real \<open>r\<close> and every \<open>tau2 > 0\<close> (with the calibrated \<open>xi > 0\<close> and a
  sparsity \<open>0 < p < 1\<close>), the shrinkage function is odd in its first argument:
  \<open>MMSE_shrinkage (- r) tau2 = - MMSE_shrinkage r tau2\<close>.
\<close>

theorem MMSE_shrinkage_odd:
  assumes "0 < tau2" and "0 < xi g" and "0 < p g" and "p g < 1"
  shows "MMSE_shrinkage g (- r) tau2 = - MMSE_shrinkage g r tau2"
  by (simp add: MMSE_shrinkage_def gauss_minus)

theorem MMSE_shrinkage_odd_witness:
  "0 < (1 / 9 :: real) \<and> 0 < xi small_globals \<and> 0 < p small_globals \<and> p small_globals < 1 \<and>
   MMSE_shrinkage small_globals (- (1 / 3)) (1 / 9) = - MMSE_shrinkage small_globals (1 / 3) (1 / 9)"
  using MMSE_shrinkage_odd [of "1 / 9" small_globals "1 / 3"]
  by (simp add: small_globals_def)

text \<open>
  C9. For every \<open>tau2 > 0\<close> and \<open>xi > 0\<close>, a zero coordinate is mapped to zero: at
  \<open>r = 0\<close> both density terms are 1, the mixture denominator is \<open>(1 - p) + p = 1\<close>, and
  \<open>MMSE_shrinkage 0 tau2 = 0\<close>.
\<close>

theorem MMSE_shrinkage_zero:
  assumes "0 < tau2" and "0 < xi g"
  shows "gauss 0 tau2 = 1 \<and> gauss 0 (xi g) = 1
    \<and> (1 - p g) * gauss 0 tau2 + p g * gauss 0 (xi g) = 1
    \<and> MMSE_shrinkage g 0 tau2 = 0"
  by (simp add: MMSE_shrinkage_def gauss_zero)

theorem MMSE_shrinkage_zero_witness:
  "0 < (1 / 9 :: real) \<and> 0 < xi small_globals \<and> MMSE_shrinkage small_globals 0 (1 / 9) = 0"
  using MMSE_shrinkage_zero [of "1 / 9" small_globals]
  by (simp add: small_globals_def)

text \<open>
  C10. For every real \<open>r\<close>, \<open>tau2 > 0\<close>, \<open>xi > 0\<close> and \<open>0 < p < 1\<close>, the mixture
  denominator \<open>(1 - p) * gauss r tau2 + p * gauss r xi\<close> is strictly positive in exact
  real arithmetic; none of the divisors of \<open>gauss\<close> and \<open>MMSE_shrinkage\<close> is zero, and
  the value of \<open>MMSE_shrinkage\<close> is the proper quotient of numerator and denominator.
\<close>

theorem mixture_denominator_positive:
  assumes "0 < tau2" and "0 < xi g" and "0 < p g" and "p g < 1"
  shows "0 < (1 - p g) * gauss r tau2 + p g * gauss r (xi g)
    \<and> 2 * tau2 \<noteq> 0 \<and> 2 * xi g \<noteq> 0 \<and> xi g \<noteq> 0
    \<and> MMSE_shrinkage g r tau2 * ((1 - p g) * gauss r tau2 + p g * gauss r (xi g))
        = (r * alpha2 g / xi g) * p g * gauss r (xi g)"
proof -
  have pos: "0 < (1 - p g) * gauss r tau2 + p g * gauss r (xi g)"
    using assms(3,4) by (rule mixture_pos)
  then have "MMSE_shrinkage g r tau2 * ((1 - p g) * gauss r tau2 + p g * gauss r (xi g))
      = (r * alpha2 g / xi g) * p g * gauss r (xi g)"
    unfolding MMSE_shrinkage_def by simp
  with pos assms(1,2) show ?thesis
    by simp
qed

theorem mixture_denominator_positive_witness:
  "0 < (1 / 9 :: real) \<and> 0 < xi small_globals \<and> 0 < p small_globals \<and> p small_globals < 1 \<and>
   0 < (1 - p small_globals) * gauss 100 (1 / 9) + p small_globals * gauss 100 (xi small_globals)"
  using mixture_denominator_positive [of "1 / 9" small_globals 100]
  by (simp add: small_globals_def)

section \<open>Properties of the shrinkage estimator on float values\<close>

text \<open>
  Where no special value arises, the float version computes the real one.
\<close>

lemma gauss_float_exact:
  assumes "var \<noteq> 0" and "- 104 \<le> - (x * x) / (2 * var)" and "- (x * x) / (2 * var) \<le> 89"
  shows "gauss_float (Fin x) (Fin var) = Fin (gauss x var)"
  using assms by (simp add: gauss_float_def gauss_def)

lemma MMSE_shrinkage_float_exact:
  assumes "tau2 \<noteq> 0" and "- 104 \<le> - (y * y) / (2 * tau2)" and "- (y * y) / (2 * tau2) \<le> 89"
    and "xi g \<noteq> 0" and "- 104 \<le> - (y * y) / (2 * xi g)" and "- (y * y) / (2 * xi g) \<le> 89"
    and "(1 - p g) * gauss y tau2 + p g * gauss y (xi g) \<noteq> 0"
  shows "MMSE_shrinkage_float g (Fin y) (Fin tau2) = Fin (MMSE_shrinkage g y tau2)"
  using assms by (simp add: MMSE_shrinkage_float_def MMSE_shrinkage_def gauss_float_exact)

lemma fmul_zero_right: "fmul a (Fin 0) = Fin 0 \<or> fmul a (Fin 0) = NaN"
  by (cases a) simp_all

text \<open>
  C3 (as stated, refuted). The claim is that \<open>MMSE_shrinkage\<close> returns 0 when both
  density terms evaluate to zero. For \<open>y = 100\<close>, \<open>tau2 = 1\<close> and \<open>xi = 2\<close> both
  density terms are zero and the value is not 0.
\<close>

theorem MMSE_shrinkage_float_underflow_not_zero:
  "gauss_float (Fin 100) (Fin 1) = Fin 0
   \<and> gauss_float (Fin 100) (Fin (xi small_globals)) = Fin 0
   \<and> MMSE_shrinkage_float small_globals (Fin 100) (Fin 1) \<noteq> Fin 0"
  by (simp add: MMSE_shrinkage_float_def gauss_float_def small_globals_def)

text \<open>
  C3 (amended). For every input \<open>y\<close> and variance \<open>tau2\<close> for which both density terms
  evaluate to zero, \<open>MMSE_shrinkage\<close> divides zero (or NaN) by zero and returns NaN: no
  limiting value is put in its place.
\<close>

theorem MMSE_shrinkage_float_zero_over_zero:
  assumes "gauss_float y tau2 = Fin 0" and "gauss_float y (Fin (xi g)) = Fin 0"
  shows "MMSE_shrinkage_float g y tau2 = NaN"
proof -
  let ?f = "fmul (fdiv (fmul y (Fin (alpha2 g))) (Fin (xi g))) (Fin (p g))"
  have "fmul ?f (Fin 0) = Fin 0 \<or> fmul ?f (Fin 0) = NaN"
    by (rule fmul_zero_right)
  then show ?thesis
    unfolding MMSE_shrinkage_float_def assms by auto
qed

theorem MMSE_shrinkage_float_zero_over_zero_witness:
  "gauss_float (Fin 25) (Fin (1 / 9)) = Fin 0
   \<and> gauss_float (Fin 25) (Fin (xi small_globals)) = Fin 0
   \<and> MMSE_shrinkage_float small_globals (Fin 25) (Fin (1 / 9)) = NaN"
  using MMSE_shrinkage_float_zero_over_zero [of "Fin 25" "Fin (1 / 9)" small_globals]
  by (simp add: gauss_float_def small_globals_def)

section \<open>Properties of the error variance estimator\<close>

text \<open>
  C1 (the code departs from the claim). The claim is that \<open>v2\<close> is clamped to
  \<open>1e-7\<close> before the \<open>tau2\<close> formula uses it, so that the estimate never falls below
  the floor. The clamped tensor is dropped, the formula uses the raw \<open>v2\<close>: for the
  zero residual in the small configuration, with \<open>gamma[0] = 1\<close>, \<open>v2 = - 1/3\<close> and
  every coordinate of the returned estimate is \<open>- 1/9\<close>, while the clamped tensor would
  have been \<open>[1e-7]\<close>.
\<close>

theorem eval_tau2_below_floor:
  "eval_tau2 small_globals \<lparr>gamma = [1]\<rparr> [[0]] 0 = Inr [[- 1 / 9, - 1 / 9, - 1 / 9]]
   \<and> clamp_min [(0 - real (M small_globals) * sigma2 small_globals) / taa small_globals] (1 / 10 ^ 7)
       = [1 / 10 ^ 7]"
  by (simp add: eval_tau2_def small_globals_def norm_2_1_def getitem_def expand_t_def
      clamp_min_def Let_def numeral_3_eq_3)

section \<open>Properties of the network\<close>

lemma TISTA_NET_init_length: "length (gamma (TISTA_NET_init g draw)) = max_layers g"
  by (simp add: TISTA_NET_init_def)

lemma getitem_in_range: "i < length v \<Longrightarrow> getitem v i = Inr (v ! i)"
  by (simp add: getitem_def)

lemma getitem_out_of_range: "\<not> i < length v \<Longrightarrow> getitem v i = Inl IndexOutOfRange"
  by (simp add: getitem_def)

lemma eval_tau2_in_range:
  "i < length (gamma self) \<Longrightarrow> \<exists>tau2. eval_tau2 g self t i = Inr tau2"
  by (simp add: eval_tau2_def getitem_in_range Let_def)

lemma layer_in_range:
  "i < length (gamma self) \<Longrightarrow> \<exists>s'. layer g self y i s = Inr s'"
  by (simp add: layer_def eval_tau2_def getitem_in_range Let_def)

lemma layer_out_of_range:
  "\<not> i < length (gamma self) \<Longrightarrow> layer g self y i s = Inl IndexOutOfRange"
  by (simp add: layer_def eval_tau2_def getitem_out_of_range Let_def)

lemma forward_loop_in_range:
  "\<forall>i \<in> set is. i < length (gamma self) \<Longrightarrow> \<exists>s'. forward_loop g self y is s = Inr s'"
proof (induction "is" arbitrary: s)
  case Nil
  show ?case by simp
next
  case (Cons i "is")
  from Cons.prems have "i < length (gamma self)" by simp
  then obtain s1 where s1: "layer g self y i s = Inr s1"
    using layer_in_range by blast
  from Cons.prems have "\<forall>j \<in> set is. j < length (gamma self)" by simp
  then obtain s' where "forward_loop g self y is s1 = Inr s'"
    using Cons.IH by blast
  with s1 show ?case by simp
qed

lemma forward_loop_out_of_range:
  assumes "\<forall>j \<in> set js. j < length (gamma self)" and "\<not> i < length (gamma self)"
  shows "forward_loop g self y (js @ i # ks) s = Inl IndexOutOfRange"
  using assms(1)
proof (induction js arbitrary: s)
  case Nil
  show ?case
    using assms(2) by (simp add: layer_out_of_range)
next
  case (Cons j js)
  from Cons.prems have "j < length (gamma self)" by simp
  then obtain s1 where s1: "layer g self y j s = Inr s1"
    using layer_in_range by blast
  from Cons.prems have "\<forall>k \<in> set js. k < length (gamma self)" by simp
  then have "forward_loop g self y (js @ i # ks) s1 = Inl IndexOutOfRange"
    by (rule Cons.IH)
  with s1 show ?case by simp
qed

text \<open>
  C4. For \<open>max_itr = 1\<close> the output of \<open>forward\<close> is one application of the layer
  recursion with \<open>gamma[0]\<close>: \<open>y = x.mm(At) + noise\<close>, \<open>t = y - s.mm(At)\<close>,
  \<open>tau2 = eval_tau2(t, 0)\<close>, \<open>r = s + t.mm(Wt) * gamma[0]\<close>, and the output is
  \<open>MMSE_shrinkage(r, tau2)\<close>.
\<close>

theorem forward_one_layer:
  assumes "gamma self \<noteq> []"
  shows "let y = tadd (mm x (At g)) noise;
             t = tsub y (mm s (At g));
             r = tadd s (tscale (mm t (Wt g)) (gamma self ! 0))
         in \<exists>tau2. eval_tau2 g self t 0 = Inr tau2
              \<and> forward g self noise x s 1 = Inr (MMSE_shrinkage_tensor g r tau2)"
proof -
  from assms have "0 < length (gamma self)" by simp
  then show ?thesis
    by (simp add: forward_def layer_def eval_tau2_def getitem_in_range Let_def)
qed

theorem forward_one_layer_witness:
  "gamma \<lparr>gamma = [1]\<rparr> \<noteq> [] \<and>
   forward small_globals \<lparr>gamma = [1]\<rparr> [[0]] [[1, 0, 0]] [[0, 0, 0]] 1
     = Inr (MMSE_shrinkage_tensor small_globals [[1 / 3, 1 / 3, 1 / 3]] [[1 / 9, 1 / 9, 1 / 9]])"
  using forward_one_layer [of "\<lparr>gamma = [1]\<rparr>" "[[1, 0, 0]]" small_globals "[[0]]" "[[0, 0, 0]]"]
  by (simp add: eval_tau2_def small_globals_def norm_2_1_def getitem_def expand_t_def Let_def
      numeral_3_eq_3 mm_def dot_def tadd_def tsub_def tscale_def)

text \<open>
  C8. A network holds \<open>max_layers\<close> entries of \<open>gamma\<close>. A call of \<open>forward\<close> with
  \<open>max_itr > max_layers\<close> runs the layers \<open>0 .. max_layers - 1\<close> and then fails with the
  out-of-range error at layer index \<open>max_layers\<close>; it does not return the result of
  \<open>max_layers\<close> layers, which a call with \<open>max_itr = max_layers\<close> does return.
\<close>

theorem forward_beyond_max_layers:
  assumes "length (gamma self) = max_layers g" and "max_layers g < max_itr"
  shows "forward g self noise x s max_itr = Inl IndexOutOfRange
    \<and> (\<exists>s'. forward g self noise x s (max_layers g) = Inr s')"
proof -
  have split: "[0..<max_itr] = [0..<max_layers g] @ max_layers g # [Suc (max_layers g)..<max_itr]"
    using assms(2) by (metis less_imp_le_nat upt_add_eq_append upt_conv_Cons le_add_diff_inverse zero_le)
  have inside: "\<forall>j \<in> set [0..<max_layers g]. j < length (gamma self)"
    using assms(1) by simp
  have outside: "\<not> max_layers g < length (gamma self)"
    using assms(1) by simp
  have "forward g self noise x s max_itr = Inl IndexOutOfRange"
    unfolding forward_def Let_def split
    using inside outside by (rule forward_loop_out_of_range)
  moreover have "\<exists>s'. forward g self noise x s (max_layers g) = Inr s'"
    unfolding forward_def Let_def
    using inside by (rule forward_loop_in_range)
  ultimately show ?thesis by simp
qed

theorem forward_beyond_max_layers_witness:
  "length (gamma \<lparr>gamma = [1, 1]\<rparr>) = max_layers small_globals \<and> max_layers small_globals < 3 \<and>
   forward small_globals \<lparr>gamma = [1, 1]\<rparr> [[0]] [[1, 0, 0]] [[0, 0, 0]] 3 = Inl IndexOutOfRange"
  using forward_beyond_max_layers [of "\<lparr>gamma = [1, 1]\<rparr>" small_globals 3 "[[0]]" "[[1, 0, 0]]" "[[0, 0, 0]]"]
  by (simp add: small_globals_def)

section \<open>Properties of the SNR calculation\<close>

lemma row_energy:
  "(sqrt (\<Sum>column \<leftarrow> cols. dot row column * dot row column))\<^sup>2
     = (\<Sum>column \<leftarrow> cols. (dot row column)\<^sup>2)"
proof -
  have "0 \<le> (\<Sum>column \<leftarrow> cols. dot row column * dot row column)"
    by (rule sum_list_nonneg) auto
  then show ?thesis
    by (simp add: power2_eq_square)
qed

lemma batch_energy:
  "sum_list (map (\<lambda>n. n\<^sup>2) (norm_2_1 (mm x (At g)))) = (\<Sum>row \<leftarrow> x. measurement_energy g row)"
  by (simp add: norm_2_1_def mm_def comp_def row_energy measurement_energy_def)

lemma snr_loop_sum:
  "snr_loop g xs sum_acc = sum_acc + (\<Sum>row \<leftarrow> concat xs. measurement_energy g row)"
  by (induction xs arbitrary: sum_acc) (simp_all add: batch_energy Let_def)

lemma length_concat_batches:
  "\<forall>x \<in> set xs. length x = b \<Longrightarrow> length (concat xs) = length xs * b"
  by (induction xs) simp_all

text \<open>
  C6. With a positive \<open>batch_size\<close> and \<open>M\<close> and batches of \<open>batch_size\<close> items, the
  SNR calculation succeeds and sets \<open>sigma2\<close> to the average, over the \<open>100 * batch_size\<close>
  items drawn, of the total squared energy of the noiseless measurement, divided by
  \<open>M * 10^(snr/10)\<close>, and \<open>xi\<close> to \<open>alpha2 + sigma2\<close>; \<open>main\<close> runs the training
  loop with these globals, so no training step precedes the calculation.
\<close>

theorem SNR_calculation_spec:
  assumes "0 < batch_size g" and "0 < M g" and "\<forall>i < 100. length (batch i) = batch_size g"
  shows "\<exists>g'. SNR_calculation g batch = Inr g'
    \<and> sigma2 g' = spec_sigma2 g (concat (map batch [0..<100]))
    \<and> xi g' = alpha2 g + sigma2 g'
    \<and> main env g gamma_draw adam batch
        = generations env g' [0..<num_generations g]
            \<lparr>network = TISTA_NET_init g gamma_draw, opt = adam, printed = [], calls = []\<rparr>"
proof -
  let ?xs = "map batch [0..<100]"
  have len: "length (concat ?xs) = 100 * batch_size g"
    using assms(3) length_concat_batches [of ?xs "batch_size g"] by simp
  have div1: "100 * real (batch_size g) \<noteq> 0"
    using assms(1) by simp
  have div2: "real (M g) * 10 powr (snr g / 10) \<noteq> 0"
    using assms(2) by simp
  define s2 where
    "s2 = snr_loop g ?xs 0 / (100 * real (batch_size g)) / (real (M g) * 10 powr (snr g / 10))"
  have run: "SNR_calculation g batch
      = Inr (g\<lparr>sigma2 := s2, sigma_std := sqrt s2, xi := alpha2 g + s2\<rparr>)"
    unfolding SNR_calculation_def Let_def s2_def using div1 div2 by simp
  have "s2 = spec_sigma2 g (concat ?xs)"
    unfolding s2_def spec_sigma2_def average_energy_def snr_loop_sum len by simp
  with run show ?thesis
    by (simp add: main_def Let_def)
qed

theorem SNR_calculation_spec_witness:
  "0 < batch_size small_globals \<and> 0 < M small_globals
   \<and> length [[1, 0, 0 :: real]] = batch_size small_globals
   \<and> (\<exists>g'. SNR_calculation small_globals (\<lambda>i. [[1, 0, 0]]) = Inr g'
         \<and> sigma2 g' = spec_sigma2 small_globals (concat (map (\<lambda>i. [[1, 0, 0]]) [0..<100]))
         \<and> xi g' = alpha2 small_globals + sigma2 g')"
proof -
  have h1: "0 < batch_size small_globals" and h2: "0 < M small_globals"
    and h3: "\<forall>i < 100. length ((\<lambda>i. [[1, 0, 0 :: real]]) i) = batch_size small_globals"
    by (simp_all add: small_globals_def)
  from SNR_calculation_spec [OF h1 h2 h3, of small_substrate "\<lambda>k. 1" 0] h1 h2
  show ?thesis
    by (auto simp: small_globals_def)
qed

section \<open>Properties of the training driver\<close>

lemma fne_self: "fne v v \<longleftrightarrow> v = NaN"
  by (cases v) simp_all

lemma any_isnan: "tensor_any (isnan [grad]) \<longleftrightarrow> NaN \<in> set grad"
  by (simp add: tensor_any_def isnan_def list_ex_iff fne_self)

lemma forward_in_range:
  "max_itr \<le> length (gamma self) \<Longrightarrow> \<exists>s'. forward g self noise x s max_itr = Inr s'"
  unfolding forward_def Let_def by (rule forward_loop_in_range) simp

text \<open>
  C2. In a mini-batch whose forward pass is within the layers of the network: if a
  coordinate of the gradient is NaN, the network and the optimizer are left exactly as
  they were; otherwise the new optimizer state and the new \<open>gamma\<close> are the result of
  one optimizer step on the old ones with this gradient.
\<close>

theorem gradient_guard:
  assumes "gen < length (gamma (network st))"
  shows "\<exists>st'. minibatch env g gen i st = Inr st' \<and>
     (let grad = backward env (network st) (train_batch env gen i) (train_noise env gen i) (gen + 1)
      in if NaN \<in> set grad then network st' = network st \<and> opt st' = opt st
         else (opt st', gamma (network st')) = opt_step env (opt st) (gamma (network st)) grad)"
proof -
  from assms have "gen + 1 \<le> length (gamma (network st))" by simp
  then obtain x_hat where
    "forward g (network st) (train_noise env gen i) (train_batch env gen i) (s_zero g) (gen + 1)
       = Inr x_hat"
    using forward_in_range by blast
  then show ?thesis
    by (simp add: minibatch_def Let_def any_isnan step_def split: prod.split)
qed

theorem gradient_guard_witness:
  "0 < length (gamma (network small_driver))
   \<and> (\<exists>st'. minibatch small_substrate small_globals 0 0 small_driver = Inr st'
         \<and> network st' = network small_driver \<and> opt st' = opt small_driver)
   \<and> (\<exists>st'. minibatch small_substrate small_globals 0 1 small_driver = Inr st'
         \<and> gamma (network st') = [24 / 25, 24 / 25] \<and> opt st' = 1)"
  using gradient_guard [of 0 small_driver small_substrate small_globals 0]
    gradient_guard [of 0 small_driver small_substrate small_globals 1]
  by (auto simp: small_driver_def small_substrate_def Let_def)

lemma minibatch_calls:
  assumes "gen < length (gamma (network st))"
    and "\<forall>a v gr. length (snd (opt_step env a v gr)) = length v"
  shows "\<exists>st'. minibatch env g gen i st = Inr st'
    \<and> calls st' = calls st @ [(Training, gen, gen + 1)]
    \<and> length (gamma (network st')) = length (gamma (network st))"
proof -
  from assms(1) have "gen + 1 \<le> length (gamma (network st))" by simp
  then obtain x_hat where
    "forward g (network st) (train_noise env gen i) (train_batch env gen i) (s_zero g) (gen + 1)
       = Inr x_hat"
    using forward_in_range by blast
  moreover have "length (snd (opt_step env (opt st) (gamma (network st)) gr))
      = length (gamma (network st))" for gr
    using assms(2) by blast
  ultimately show ?thesis
    by (simp add: minibatch_def Let_def step_def split: prod.split) (metis snd_conv)
qed

lemma train_loop_calls:
  assumes "gen < length (gamma (network st))"
    and "\<forall>a v gr. length (snd (opt_step env a v gr)) = length v"
  shows "\<exists>st'. train_loop env g gen is st = Inr st'
    \<and> calls st' = calls st @ replicate (length is) (Training, gen, gen + 1)
    \<and> length (gamma (network st')) = length (gamma (network st))"
  using assms(1)
proof (induction "is" arbitrary: st)
  case Nil
  show ?case by simp
next
  case (Cons i "is")
  obtain st1 where st1: "minibatch env g gen i st = Inr st1"
      "calls st1 = calls st @ [(Training, gen, gen + 1)]"
      "length (gamma (network st1)) = length (gamma (network st))"
    using minibatch_calls [OF Cons.prems assms(2)] by blast
  from Cons.prems st1(3) have "gen < length (gamma (network st1))" by simp
  then obtain st' where st': "train_loop env g gen is st1 = Inr st'"
      "calls st' = calls st1 @ replicate (length is) (Training, gen, gen + 1)"
      "length (gamma (network st')) = length (gamma (network st1))"
    using Cons.IH by blast
  show ?case
    using st1 st' by (simp add: replicate_app_Cons_same)
qed

lemma accuracy_loop_calls:
  assumes "gen < length (gamma (network st))"
  shows "\<exists>nmse_sum' st'. accuracy_loop env g gen is nmse_sum st = Inr (nmse_sum', st')
    \<and> calls st' = calls st @ replicate (length is) (Evaluation, gen, gen + 1)
    \<and> network st' = network st \<and> opt st' = opt st"
  using assms
proof (induction "is" arbitrary: st nmse_sum)
  case Nil
  show ?case by simp
next
  case (Cons i "is")
  from Cons.prems have "gen + 1 \<le> length (gamma (network st))" by simp
  then obtain x_hat where fw:
    "forward g (network st) (test_noise env gen i) (test_batch env gen i) (s_zero g) (gen + 1)
       = Inr x_hat"
    using forward_in_range by blast
  let ?st1 = "st\<lparr>calls := calls st @ [(Evaluation, gen, gen + 1)]\<rparr>"
  from Cons.prems have "gen < length (gamma (network ?st1))" by simp
  from Cons.IH [OF this] fw show ?case
    by (simp add: Let_def replicate_app_Cons_same)
qed

lemma generations_calls:
  assumes "\<forall>gen \<in> set gens. gen < length (gamma (network st))"
    and "\<forall>a v gr. length (snd (opt_step env a v gr)) = length v"
    and "0 < batch_size g"
  shows "\<exists>st'. generations env g gens st = Inr st'
    \<and> calls st' = calls st @ expected_calls g gens"
  using assms(1)
proof (induction gens arbitrary: st)
  case Nil
  show ?case by (simp add: expected_calls_def)
next
  case (Cons gen gens)
  from Cons.prems have gen: "gen < length (gamma (network st))" by simp
  obtain st1 where st1: "train_loop env g gen [0..<num_batch g] st = Inr st1"
      "calls st1 = calls st @ replicate (length [0..<num_batch g]) (Training, gen, gen + 1)"
      "length (gamma (network st1)) = length (gamma (network st))"
    using train_loop_calls [OF gen assms(2)] by blast
  from gen st1(3) have "gen < length (gamma (network st1))" by simp
  then obtain nmse_sum st2 where st2:
      "accuracy_loop env g gen [0..<10] 0 st1 = Inr (nmse_sum, st2)"
      "calls st2 = calls st1 @ replicate (length [0..<10]) (Evaluation, gen, gen + 1)"
      "network st2 = network st1"
    using accuracy_loop_calls by blast
  let ?st3 = "st2\<lparr>printed := printed st2 @ [(gen + 1, nmse_sum / (10 * real (batch_size g)))]\<rparr>"
  from Cons.prems st1(3) st2(3) have "\<forall>k \<in> set gens. k < length (gamma (network ?st3))"
    by simp
  then obtain st' where st': "generations env g gens ?st3 = Inr st'"
      "calls st' = calls ?st3 @ expected_calls g gens"
    using Cons.IH by blast
  show ?case
    using st1 st2 st' assms(3) by (simp add: expected_calls_def)
qed

lemma expected_calls_depth:
  "list_all (\<lambda>(ph, gen, max_itr). gen \<in> set gens \<and> max_itr = gen + 1) (expected_calls g gens)"
  by (auto simp: expected_calls_def list_all_iff)

text \<open>
  C5. When the network has at least \<open>num_generations\<close> layers (and the optimizer keeps
  the length of \<open>gamma\<close>), the incremental training loop runs to its end, and the calls
  \<open>network(x, s_zero, max_itr)\<close> it makes are, for every generation
  \<open>gen = 0, ..., num_generations - 1\<close> in turn, \<open>num_batch\<close> training calls and ten
  evaluation calls, every one of them with \<open>max_itr = gen + 1\<close>.
\<close>

theorem incremental_depth:
  assumes "num_generations g \<le> length (gamma (network st))"
    and "\<forall>a v gr. length (snd (opt_step env a v gr)) = length v"
    and "0 < batch_size g"
  shows "\<exists>st'. generations env g [0..<num_generations g] st = Inr st'
    \<and> calls st' = calls st @ expected_calls g [0..<num_generations g]
    \<and> list_all (\<lambda>(ph, gen, max_itr). gen < num_generations g \<and> max_itr = gen + 1)
         (expected_calls g [0..<num_generations g])"
proof -
  from assms(1) have "\<forall>gen \<in> set [0..<num_generations g]. gen < length (gamma (network st))"
    by simp
  then obtain st' where "generations env g [0..<num_generations g] st = Inr st'"
      "calls st' = calls st @ expected_calls g [0..<num_generations g]"
    using generations_calls [OF _ assms(2,3)] by blast
  moreover have "list_all (\<lambda>(ph, gen, max_itr). gen < num_generations g \<and> max_itr = gen + 1)
         (expected_calls g [0..<num_generations g])"
    using expected_calls_depth [of "[0..<num_generations g]" g] by simp
  ultimately show ?thesis by blast
qed

theorem incremental_depth_witness:
  "num_generations small_globals \<le> length (gamma (network small_driver))
   \<and> (\<forall>a v gr. length (snd (opt_step small_substrate a v gr)) = length v)
   \<and> 0 < batch_size small_globals
   \<and> (\<exists>st'. generations small_substrate small_globals [0..<2] small_driver = Inr st'
         \<and> calls st' = replicate 2 (Training, 0, 1) @ replicate 10 (Evaluation, 0, 1)
                      @ replicate 2 (Training, 1, 2) @ replicate 10 (Evaluation, 1, 2))"
proof -
  have h1: "num_generations small_globals \<le> length (gamma (network small_driver))"
    by (simp add: small_globals_def small_driver_def)
  have h2: "\<forall>a v gr. length (snd (opt_step small_substrate a v gr)) = length v"
    by (simp add: small_substrate_def)
  have h3: "0 < batch_size small_globals"
    by (simp add: small_globals_def)
  have n: "num_generations small_globals = 2" "num_batch small_globals = 2"
    by (simp_all add: small_globals_def)
  have e: "expected_calls small_globals [0..<2]
      = replicate 2 (Training, 0, 1) @ replicate 10 (Evaluation, 0, 1)
        @ replicate 2 (Training, 1, 2) @ replicate 10 (Evaluation, 1, 2)"
  proof -
    have "[0..<2::nat] = [0, 1]"
      by (simp add: numeral_2_eq_2)
    then show ?thesis
      by (simp add: expected_calls_def n)
  qed
  from incremental_depth [OF h1 h2 h3] h1 h2 h3 show ?thesis
    by (auto simp: n e small_driver_def)
qed

end
